theory Spec2Isabelle
  imports
    Complex_Main
    "HOL-Library.Multiset"
    "HOL-Library.Char_ord"
    "HOL-Library.List_Lexorder"
    "HOL-Library.Product_Lexorder"
begin

section \<open>Data model\<close>

text \<open>
  A value of a float64 column: a finite number or the missing marker NaN. Finite values
  are rationals and arithmetic on them is exact here: rounding and the two infinities
  are not modelled.
\<close>

datatype num = Num rat | NaN

text \<open>
  A value of a column as it is read from a file: a number (or an empty cell, NaN), or a
  text \<open>Str s\<close> that pandas cannot read as a number.
\<close>

datatype cell = Val num | Str string

text \<open>
  A value of the date column before normalization: a calendar day (day number), a day
  with a time of day (seconds), an empty cell, or a text that is no date.
\<close>

datatype date_cell = Day int | Stamp int nat | NoDate | BadDate string

datatype error = DateParseError

text \<open>
  One row of the signals frame. The type parameters are the types of its numeric
  columns, of its date column and of its main_driver column: \<open>cell\<close>,
  \<open>date_cell\<close>, \<open>cell\<close> before normalization; \<open>num\<close>, a day or NaT
  (\<open>None\<close>), a driver name or NaN (\<open>None\<close>) after it.
\<close>

record ('n, 'd, 'm) row =
  commodity :: string
  market :: string
  date :: 'd
  price :: 'n
  chg_7d :: 'n
  chg_30d :: 'n
  supply_risk_score :: 'n
  logistics_risk_score :: 'n
  climate_risk_score :: 'n
  geopolitical_risk_score :: 'n
  confidence :: 'n
  composite_risk_score :: 'n
  main_driver :: 'm

type_synonym raw_row = "(cell, date_cell, cell) row"
type_synonym signal = "(num, int option, string option) row"

text \<open>
  The frame given to \<open>normalize_signals\<close>: its rows, and whether it has a
  composite_risk_score column at all (without the column the field of the rows is not read).
\<close>

record frame =
  has_composite :: bool
  rows :: "raw_row list"

section \<open>Arithmetic and comparison of float64 values\<close>

fun add_num :: "num \<Rightarrow> num \<Rightarrow> num" where
  "add_num (Num a) (Num b) = Num (a + b)"
| "add_num _ _ = NaN"

fun scale :: "rat \<Rightarrow> num \<Rightarrow> num" where
  "scale k (Num a) = Num (k * a)"
| "scale k NaN = NaN"

fun abs_num :: "num \<Rightarrow> num" where
  "abs_num (Num a) = Num \<bar>a\<bar>"
| "abs_num NaN = NaN"

text \<open>Comparisons with NaN are false, whatever the comparison.\<close>

fun lt_num :: "num \<Rightarrow> num \<Rightarrow> bool" where
  "lt_num (Num a) (Num b) = (a < b)"
| "lt_num _ _ = False"

fun ge_num :: "num \<Rightarrow> num \<Rightarrow> bool" where
  "ge_num (Num a) (Num b) = (a \<ge> b)"
| "ge_num _ _ = False"

fun gt_num :: "num \<Rightarrow> num \<Rightarrow> bool" where
  "gt_num (Num a) (Num b) = (a > b)"
| "gt_num _ _ = False"

fun eq_num :: "num \<Rightarrow> num \<Rightarrow> bool" where
  "eq_num (Num a) (Num b) = (a = b)"
| "eq_num _ _ = False"

text \<open>\<open>Series.clip(lo, hi)\<close>: NaN stays NaN.\<close>

fun clip :: "rat \<Rightarrow> rat \<Rightarrow> num \<Rightarrow> num" where
  "clip lo hi (Num a) = Num (min hi (max lo a))"
| "clip lo hi NaN = NaN"

text \<open>\<open>pd.to_numeric(col, errors="coerce")\<close>, one value at a time.\<close>

fun to_numeric :: "cell \<Rightarrow> num" where
  "to_numeric (Val v) = v"
| "to_numeric (Str s) = NaN"

text \<open>
  \<open>pd.to_datetime(col).dt.date\<close>, one value at a time: the time of day is dropped,
  an empty cell is NaT, and a text that is no date raises.
\<close>

fun to_date :: "date_cell \<Rightarrow> error + int option" where
  "to_date (Day d) = Inr (Some d)"
| "to_date (Stamp d t) = Inr (Some d)"
| "to_date NoDate = Inr None"
| "to_date (BadDate s) = Inl DateParseError"

section \<open>scoring.py\<close>

definition DRIVERS :: "string list" where
  "DRIVERS = [''supply_risk_score'', ''logistics_risk_score'', ''climate_risk_score'',
     ''geopolitical_risk_score'']"

text \<open>\<open>df[c]\<close> for a driver column \<open>c\<close>, in one row.\<close>

definition column :: "(num, 'd, 'm) row \<Rightarrow> string \<Rightarrow> num" where
  "column r c =
     (if c = ''supply_risk_score'' then supply_risk_score r
      else if c = ''logistics_risk_score'' then logistics_risk_score r
      else if c = ''climate_risk_score'' then climate_risk_score r
      else geopolitical_risk_score r)"

definition compute_composite :: "(num, 'd, 'm) row \<Rightarrow> num" where
  "compute_composite r =
     add_num (add_num (add_num (scale (35 / 100) (supply_risk_score r))
                               (scale (25 / 100) (logistics_risk_score r)))
                      (scale (20 / 100) (climate_risk_score r)))
             (scale (20 / 100) (geopolitical_risk_score r))"

text \<open>
  \<open>idxmax(axis=1)\<close> on one row: the label of the first column that holds the greatest
  value, NaN skipped; NaN (\<open>None\<close>) when every value is NaN, as pandas before 3.0 returns
  it. The second component is the value found.
\<close>

fun idxmax :: "(string \<times> num) list \<Rightarrow> (string \<times> rat) option" where
  "idxmax [] = None"
| "idxmax ((c, NaN) # xs) = idxmax xs"
| "idxmax ((c, Num v) # xs) =
     (case idxmax xs of
        None \<Rightarrow> Some (c, v)
      | Some (c', v') \<Rightarrow> if v' > v then Some (c', v') else Some (c, v))"

definition mapping :: "(string \<times> string) list" where
  "mapping = [(''supply_risk_score'', ''Supply''), (''logistics_risk_score'', ''Logistics''),
     (''climate_risk_score'', ''Climate''), (''geopolitical_risk_score'', ''Geopolitical'')]"

definition compute_main_driver :: "(num, 'd, 'm) row \<Rightarrow> string option" where
  "compute_main_driver r =
     (case idxmax (map (\<lambda>c. (c, column r c)) DRIVERS) of
        None \<Rightarrow> None
      | Some (c, v) \<Rightarrow> map_of mapping c)"

definition severity_from_composite :: "num \<Rightarrow> string" where
  "severity_from_composite composite =
     (if lt_num composite (Num 50) then ''Low''
      else if lt_num composite (Num 70) then ''Medium''
      else if lt_num composite (Num 85) then ''High''
      else ''Critical'')"

text \<open>
  One row of \<open>normalize_signals\<close>, the date already converted: the numeric columns are
  coerced, the composite is taken from the input where the column is there and the value
  is a number and computed otherwise, main_driver is computed, and then the scores are
  clipped.
\<close>

definition coerce_row :: "int option \<Rightarrow> raw_row \<Rightarrow> (num, int option, cell) row" where
  "coerce_row d r =
     \<lparr> commodity = commodity r, market = market r, date = d,
       price = to_numeric (price r), chg_7d = to_numeric (chg_7d r),
       chg_30d = to_numeric (chg_30d r),
       supply_risk_score = to_numeric (supply_risk_score r),
       logistics_risk_score = to_numeric (logistics_risk_score r),
       climate_risk_score = to_numeric (climate_risk_score r),
       geopolitical_risk_score = to_numeric (geopolitical_risk_score r),
       confidence = to_numeric (confidence r),
       composite_risk_score = to_numeric (composite_risk_score r),
       main_driver = main_driver r \<rparr>"

definition normalize_row :: "bool \<Rightarrow> int option \<Rightarrow> raw_row \<Rightarrow> signal" where
  "normalize_row has_comp d r =
     (let out = coerce_row d r;
          comp = (if has_comp \<and> composite_risk_score out \<noteq> NaN
                  then composite_risk_score out else compute_composite out)
      in \<lparr> commodity = commodity out, market = market out, date = date out,
           price = price out, chg_7d = chg_7d out, chg_30d = chg_30d out,
           supply_risk_score = clip 0 100 (supply_risk_score out),
           logistics_risk_score = clip 0 100 (logistics_risk_score out),
           climate_risk_score = clip 0 100 (climate_risk_score out),
           geopolitical_risk_score = clip 0 100 (geopolitical_risk_score out),
           confidence = clip 0 1 (confidence out),
           composite_risk_score = clip 0 100 comp,
           main_driver = compute_main_driver out \<rparr>)"

text \<open>The date column is converted first, and one bad date fails the whole call.\<close>

fun to_dates :: "date_cell list \<Rightarrow> error + int option list" where
  "to_dates [] = Inr []"
| "to_dates (x # xs) =
     (case to_date x of
        Inl e \<Rightarrow> Inl e
      | Inr d \<Rightarrow> (case to_dates xs of Inl e \<Rightarrow> Inl e | Inr ds \<Rightarrow> Inr (d # ds)))"

definition normalize_signals :: "frame \<Rightarrow> error + signal list" where
  "normalize_signals df =
     (case to_dates (map date (rows df)) of
        Inl e \<Rightarrow> Inl e
      | Inr ds \<Rightarrow> Inr (map (\<lambda>(d, r). normalize_row (has_composite df) d r) (zip ds (rows df))))"

text \<open>
  A normalized frame given to \<open>normalize_signals\<close> again: its float64 columns hold
  numbers and NaN, its date column days and NaT, its main_driver column names and NaN.
\<close>

definition as_cells :: "signal \<Rightarrow> raw_row" where
  "as_cells r =
     \<lparr> commodity = commodity r, market = market r,
       date = (case date r of None \<Rightarrow> NoDate | Some d \<Rightarrow> Day d),
       price = Val (price r), chg_7d = Val (chg_7d r), chg_30d = Val (chg_30d r),
       supply_risk_score = Val (supply_risk_score r),
       logistics_risk_score = Val (logistics_risk_score r),
       climate_risk_score = Val (climate_risk_score r),
       geopolitical_risk_score = Val (geopolitical_risk_score r),
       confidence = Val (confidence r),
       composite_risk_score = Val (composite_risk_score r),
       main_driver = (case main_driver r of None \<Rightarrow> Val NaN | Some s \<Rightarrow> Str s) \<rparr>"

definition as_frame :: "signal list \<Rightarrow> frame" where
  "as_frame rs = \<lparr> has_composite = True, rows = map as_cells rs \<rparr>"

text \<open>
  The frame \<open>generate_alerts\<close> returns: the signal columns and three more.
\<close>

record alert = "(num, int option, string option) row" +
  severity :: string
  triggered :: bool
  trigger_reason :: string

definition trigger_risk :: "(num, 'd, 'm, 'z) row_scheme \<Rightarrow> bool" where
  "trigger_risk r = ge_num (composite_risk_score r) (Num 70)"

definition trigger_price :: "(num, 'd, 'm, 'z) row_scheme \<Rightarrow> bool" where
  "trigger_price r = ge_num (abs_num (chg_7d r)) (Num 10)"

text \<open>The columns added to one row: the reason starts empty and is set three times.\<close>

definition annotate :: "signal \<Rightarrow> alert" where
  "annotate r =
     (let r0 = [];
          r1 = (if trigger_risk r \<and> trigger_price r
                then ''Composite >= 70 AND |7D change| >= 10'' else r0);
          r2 = (if trigger_risk r \<and> \<not> trigger_price r then ''Composite >= 70'' else r1);
          r3 = (if \<not> trigger_risk r \<and> trigger_price r then ''|7D change| >= 10'' else r2)
      in row.extend r
           (alert.fields (severity_from_composite (composite_risk_score r))
              (trigger_risk r \<or> trigger_price r) r3))"

text \<open>
  The sort key of one column under \<open>ascending=False\<close>: greater numbers first, NaN last
  (\<open>na_position\<close> is left at its default).
\<close>

fun desc_key :: "num \<Rightarrow> nat \<times> rat" where
  "desc_key (Num v) = (0, - v)"
| "desc_key NaN = (1, 0)"

definition rank_key :: "alert \<Rightarrow> (nat \<times> rat) \<times> (nat \<times> rat)" where
  "rank_key a = (desc_key (composite_risk_score a), desc_key (chg_7d a))"

text \<open>\<open>sort_values\<close> on two columns is a stable sort on the pair of keys.\<close>

definition generate_alerts :: "signal list \<Rightarrow> alert list" where
  "generate_alerts signals = sort_key rank_key (filter triggered (map annotate signals))"

section \<open>app.py: the shock simulation of screen_drilldown\<close>

text \<open>
  Lines 360 to 369 of app.py, on the session's signals (a normalized frame) and the
  selected commodity: the three columns of the matching rows are changed, and the frame
  is normalized again.
\<close>

definition shock_row :: "string \<Rightarrow> signal \<Rightarrow> signal" where
  "shock_row c r =
     (if commodity r = c
      then r\<lparr> logistics_risk_score := clip 0 100 (add_num (logistics_risk_score r) (Num 20)),
              geopolitical_risk_score :=
                clip 0 100 (add_num (geopolitical_risk_score r) (Num 15)),
              chg_7d := add_num (chg_7d r) (Num 8) \<rparr>
      else r)"

definition apply_shock :: "signal list \<Rightarrow> string \<Rightarrow> error + signal list" where
  "apply_shock signals c = normalize_signals (as_frame (map (shock_row c) signals))"

section \<open>db.py: the actions table\<close>

record action =
  action_id :: nat
  title :: string
  owner :: string
  due_date :: string
  status :: string
  action_notes :: string
  expected_risk_impact :: string
  action_commodity :: string
  created_at :: string

text \<open>
  The table: its rows, and the greatest id it has ever given (SQLite keeps it in
  sqlite_sequence for an AUTOINCREMENT key).
\<close>

record store =
  actions :: "action list"
  actions_seq :: nat

text \<open>
  AUTOINCREMENT: the new id is one more than the greatest id the table has ever held.
\<close>

definition next_id :: "store \<Rightarrow> nat" where
  "next_id s = Suc (fold max (map action_id (actions s)) (actions_seq s))"





section \<open>The specification's words\<close>






text \<open>
  The order of two alerts as the specification words it, with the comparisons of
  float64 values.
\<close>

definition claimed_order :: "alert \<Rightarrow> alert \<Rightarrow> bool" where
  "claimed_order a b =
     (gt_num (composite_risk_score a) (composite_risk_score b) \<or>
      eq_num (composite_risk_score a) (composite_risk_score b) \<and>
        ge_num (chg_7d a) (chg_7d b))"

text \<open>
  One column decides for the first of two values (a number before a smaller number and
  before NaN), or does not tell them apart.
\<close>

fun before :: "num \<Rightarrow> num \<Rightarrow> bool" where
  "before (Num a) (Num b) = (a > b)"
| "before (Num a) NaN = True"
| "before NaN _ = False"

fun alike :: "num \<Rightarrow> num \<Rightarrow> bool" where
  "alike (Num a) (Num b) = (a = b)"
| "alike NaN NaN = True"
| "alike _ _ = False"

definition ranked :: "alert \<Rightarrow> alert \<Rightarrow> bool" where
  "ranked a b =
     (before (composite_risk_score a) (composite_risk_score b) \<or>
      alike (composite_risk_score a) (composite_risk_score b) \<and>
        (before (chg_7d a) (chg_7d b) \<or> alike (chg_7d a) (chg_7d b)))"

section \<open>Example inputs\<close>

definition reading ::
  "string \<Rightarrow> cell \<Rightarrow> cell \<Rightarrow> cell \<Rightarrow> cell \<Rightarrow> cell \<Rightarrow> raw_row"
where
  "reading c s l cl g ch =
     \<lparr> commodity = c, market = ''Qatar'', date = Day 0, price = Val (Num 1), chg_7d = ch,
       chg_30d = Val (Num 0), supply_risk_score = s, logistics_risk_score = l,
       climate_risk_score = cl, geopolitical_risk_score = g, confidence = Val (Num (1 / 2)),
       composite_risk_score = Val NaN, main_driver = Val NaN \<rparr>"

definition observation ::
  "string \<Rightarrow> num \<Rightarrow> num \<Rightarrow> num \<Rightarrow> num \<Rightarrow> num \<Rightarrow> num \<Rightarrow> string option \<Rightarrow> signal"
where
  "observation c s l cl g ch cp md =
     \<lparr> commodity = c, market = ''Qatar'', date = Some 0, price = Num 1, chg_7d = ch,
       chg_30d = Num 0, supply_risk_score = s, logistics_risk_score = l,
       climate_risk_score = cl, geopolitical_risk_score = g, confidence = Num (1 / 2),
       composite_risk_score = cp, main_driver = md \<rparr>"

text \<open>A frame without a composite column, of the given rows.\<close>

definition readings :: "raw_row list \<Rightarrow> frame" where
  "readings rs = \<lparr> has_composite = False, rows = rs \<rparr>"

definition rice_reading :: raw_row where
  "rice_reading =
     reading ''Rice'' (Val (Num 150)) (Val (Num 200)) (Val (Num 0)) (Val (Num 0)) (Val (Num 5))"

definition rice_signal :: signal where
  "rice_signal =
     observation ''Rice'' (Num 100) (Num 100) (Num 0) (Num 0) (Num 5) (Num 100)
       (Some ''Logistics'')"

definition wheat_reading :: raw_row where
  "wheat_reading =
     reading ''Wheat'' (Val (Num 60)) (Val (Num 60)) (Val (Num 60)) (Val (Num 60)) (Val (Num 5))"

definition wheat_signal :: signal where
  "wheat_signal =
     observation ''Wheat'' (Num 60) (Num 60) (Num 60) (Num 60) (Num 5) (Num 60) (Some ''Supply'')"

definition wheat_shocked :: signal where
  "wheat_shocked =
     observation ''Wheat'' (Num 60) (Num 80) (Num 60) (Num 75) (Num 13) (Num 60)
       (Some ''Logistics'')"

definition maize_reading :: raw_row where
  "maize_reading =
     reading ''Maize'' (Str ''n/a'') (Val (Num 60)) (Val (Num 60)) (Val (Num 60)) (Val (Num 12))"

definition maize_signal :: signal where
  "maize_signal =
     observation ''Maize'' NaN (Num 60) (Num 60) (Num 60) (Num 12) NaN (Some ''Logistics'')"

definition sugar_reading :: raw_row where
  "sugar_reading =
     reading ''Sugar'' (Val (Num 80)) (Val (Num 80)) (Val (Num 80)) (Val (Num 80)) (Val (Num 0))"

definition sugar_signal :: signal where
  "sugar_signal =
     observation ''Sugar'' (Num 80) (Num 80) (Num 80) (Num 80) (Num 0) (Num 80) (Some ''Supply'')"



section \<open>Facts about the normalizer\<close>





















section \<open>Facts about the alert generator\<close>


lemma annotate_fields:
  "composite_risk_score (annotate r) = composite_risk_score r"
  "chg_7d (annotate r) = chg_7d r"
  "severity (annotate r) = severity_from_composite (composite_risk_score r)"
  "triggered (annotate r) = (trigger_risk r \<or> trigger_price r)"
  by (simp_all add: annotate_def row.defs alert.defs Let_def)




section \<open>The examples, evaluated\<close>

lemmas examples =
  readings_def reading_def observation_def rice_reading_def rice_signal_def wheat_reading_def
  wheat_signal_def wheat_shocked_def maize_reading_def maize_signal_def sugar_reading_def
  sugar_signal_def

lemmas normalize_eval =
  normalize_signals_def normalize_row_def coerce_row_def compute_composite_def
  compute_main_driver_def DRIVERS_def column_def mapping_def as_frame_def as_cells_def

lemmas alerts_eval =
  generate_alerts_def annotate_def trigger_risk_def trigger_price_def rank_key_def
  severity_from_composite_def row.defs alert.defs less_eq_prod_def less_prod_def


lemma normalize_wheat: "normalize_signals (readings [wheat_reading]) = Inr [wheat_signal]"
  by (simp add: examples normalize_eval)

lemma normalize_maize_sugar:
  "normalize_signals (readings [maize_reading, sugar_reading]) = Inr [maize_signal, sugar_signal]"
  by (simp add: examples normalize_eval)



section \<open>More facts about the normalizer, the shock and the ranking\<close>







lemmas shock_eval = apply_shock_def shock_row_def



lemma desc_key_le: "(desc_key x \<le> desc_key y) = (before x y \<or> alike x y)"
  by (cases x; cases y) (auto simp: less_eq_prod_def)

lemma desc_key_less: "(desc_key x < desc_key y) = before x y"
  by (cases x; cases y) (auto simp: less_prod_def)

lemma desc_key_eq: "(desc_key x = desc_key y) = alike x y"
  by (cases x; cases y) auto

lemma rank_key_le: "(rank_key a \<le> rank_key b) = ranked a b"
proof -
  have "(rank_key a \<le> rank_key b) =
      (desc_key (composite_risk_score a) < desc_key (composite_risk_score b) \<or>
       desc_key (composite_risk_score a) \<le> desc_key (composite_risk_score b) \<and>
       desc_key (chg_7d a) \<le> desc_key (chg_7d b))"
    by (subst less_eq_prod_def) (simp only: rank_key_def fst_conv snd_conv)
  then show ?thesis
    unfolding desc_key_less desc_key_le ranked_def by blast
qed

lemma ranked_numbers:
  assumes "ranked a b" "composite_risk_score a \<noteq> NaN" "composite_risk_score b \<noteq> NaN"
    "chg_7d a \<noteq> NaN" "chg_7d b \<noteq> NaN"
  shows "claimed_order a b"
  using assms
  by (cases "composite_risk_score a"; cases "composite_risk_score b"; cases "chg_7d a";
      cases "chg_7d b") (auto simp: ranked_def claimed_order_def)

lemma alerts_sugar_rice:
  "generate_alerts [sugar_signal, rice_signal] = [annotate rice_signal, annotate sugar_signal]"
  by (simp add: examples alerts_eval)

section \<open>Facts about the actions table\<close>

lemma fold_max_ge: "a \<le> fold max xs (a::nat)"
proof (induction xs arbitrary: a)
  case Nil
  then show ?case by simp
next
  case (Cons x xs)
  have "a \<le> max x a" by simp
  also have "\<dots> \<le> fold max xs (max x a)" by (rule Cons.IH)
  finally show ?case by simp
qed





lemma seq_below_next: "actions_seq s < next_id s"
  by (simp add: next_id_def less_Suc_eq_le fold_max_ge)








section \<open>The claims\<close>




text \<open>
  Claim C6. The severity of a composite score: Low below 50, Medium from 50 and below 70,
  High from 70 and below 85, Critical from 85; and the six scores at the edges of the
  bands.
\<close>

theorem severity_bands:
  "(severity_from_composite (Num x) = ''Low'') = (x < 50) \<and>
   (severity_from_composite (Num x) = ''Medium'') = (50 \<le> x \<and> x < 70) \<and>
   (severity_from_composite (Num x) = ''High'') = (70 \<le> x \<and> x < 85) \<and>
   (severity_from_composite (Num x) = ''Critical'') = (85 \<le> x) \<and>
   severity_from_composite (Num (499 / 10)) = ''Low'' \<and>
   severity_from_composite (Num 50) = ''Medium'' \<and>
   severity_from_composite (Num (699 / 10)) = ''Medium'' \<and>
   severity_from_composite (Num 70) = ''High'' \<and>
   severity_from_composite (Num (849 / 10)) = ''High'' \<and>
   severity_from_composite (Num 85) = ''Critical''"
  by (simp add: severity_from_composite_def)














text \<open>
  Claim C1, at the scenario of the specification: a Wheat row with logistics 60,
  geopolitical 60 and a 7-day change of 5 (supply and climate 60, composite 60). The shock
  gives logistics 80, geopolitical 75 and a change of 13 and computes main_driver anew,
  and the composite stays 60, while the weighted sum of the new scores is 68: the
  normalizer computes a composite only where the column has none.
\<close>

theorem shock_composite_stale:
  "normalize_signals (readings [wheat_reading]) = Inr [wheat_signal] \<and>
   apply_shock [wheat_signal] ''Wheat'' = Inr [wheat_shocked] \<and>
   logistics_risk_score wheat_shocked = Num 80 \<and>
   geopolitical_risk_score wheat_shocked = Num 75 \<and>
   chg_7d wheat_shocked = Num 13 \<and>
   composite_risk_score wheat_shocked = composite_risk_score wheat_signal \<and>
   composite_risk_score wheat_shocked = Num 60 \<and>
   compute_composite wheat_shocked = Num 68"
  by (simp add: normalize_wheat) (simp add: examples shock_eval normalize_eval)

text \<open>
  Claim C7, as amended. Of two alerts the earlier one has the greater composite, or an
  equal composite and a 7-day change that is not smaller, when these four values are
  numbers; in general a missing composite comes after every number, and among alerts of
  equal or equally missing composite a missing 7-day change comes after every number.
\<close>

theorem alerts_ranked:
  "sorted_wrt
     (\<lambda>a b. ranked a b \<and>
        (composite_risk_score a \<noteq> NaN \<and> composite_risk_score b \<noteq> NaN \<and>
         chg_7d a \<noteq> NaN \<and> chg_7d b \<noteq> NaN \<longrightarrow> claimed_order a b))
     (generate_alerts signals)"
proof -
  have "sorted (map rank_key (generate_alerts signals))"
    by (simp add: generate_alerts_def)
  then have "sorted_wrt ranked (generate_alerts signals)"
    by (simp add: sorted_map rank_key_le)
  then show ?thesis
    by (rule sorted_wrt_mono_rel [rotated]) (auto intro: ranked_numbers)
qed

theorem alerts_ranked_witness:
  "generate_alerts [sugar_signal, rice_signal] = [annotate rice_signal, annotate sugar_signal] \<and>
   composite_risk_score (annotate rice_signal) = Num 100 \<and>
   composite_risk_score (annotate sugar_signal) = Num 80 \<and>
   chg_7d (annotate rice_signal) = Num 5 \<and> chg_7d (annotate sugar_signal) = Num 0 \<and>
   claimed_order (annotate rice_signal) (annotate sugar_signal)"
proof -
  have v: "composite_risk_score (annotate rice_signal) = Num 100"
    "composite_risk_score (annotate sugar_signal) = Num 80"
    "chg_7d (annotate rice_signal) = Num 5" "chg_7d (annotate sugar_signal) = Num 0"
    by (simp_all add: annotate_fields examples)
  have "claimed_order (annotate rice_signal) (annotate sugar_signal)"
    using alerts_ranked [of "[sugar_signal, rice_signal]", unfolded alerts_sugar_rice] v
    by simp
  then show ?thesis
    using alerts_sugar_rice v by blast
qed

text \<open>
  The claim as it stands fails on two alerts of which the second has a missing
  composite: no comparison with a missing value holds.
\<close>

theorem alerts_ranked_counterexample:
  "normalize_signals (readings [maize_reading, sugar_reading]) = Inr [maize_signal, sugar_signal] \<and>
   generate_alerts [maize_signal, sugar_signal] = [annotate sugar_signal, annotate maize_signal] \<and>
   \<not> claimed_order (annotate sugar_signal) (annotate maize_signal)"
  by (simp add: normalize_maize_sugar)
     (simp add: examples alerts_eval claimed_order_def)



end
